theory Spec2Isabelle
  imports Main "HOL-Library.Char_ord" "HOL-Library.List_Lexorder"
begin

section \<open>The collaborative editor of \<^verbatim>\<open>src/api/collaborative_editor.py\<close>\<close>

text \<open>
  The module keeps, per document, a text and the log of the operations applied to it
  (\<^verbatim>\<open>DocumentState\<close>), rewrites one operation against a concurrent one
  (\<^verbatim>\<open>transform_operation\<close>) and registers one session per document id
  (\<^verbatim>\<open>CollaborationManager\<close>). Python's \<^verbatim>\<open>int\<close> is \<open>int\<close>, \<^verbatim>\<open>str\<close> is
  \<open>string\<close>, \<^verbatim>\<open>Optional[t]\<close> is \<open>t option\<close>. The locks only make each method
  atomic; a method is a function from the state before to the result and the state after.
\<close>

subsection \<open>Operations\<close>

datatype OperationType = INSERT | DELETE | FORMAT | CURSOR

text \<open>The enum's values, \<^verbatim>\<open>OperationType.INSERT.value\<close> and so on.\<close>

fun op_type_value :: "OperationType \<Rightarrow> string" where
  "op_type_value INSERT = ''insert''"
| "op_type_value DELETE = ''delete''"
| "op_type_value FORMAT = ''format''"
| "op_type_value CURSOR = ''cursor''"

text \<open>
  The dataclass \<^verbatim>\<open>Operation\<close>. The field \<^verbatim>\<open>length\<close> is \<open>length_op\<close> here, since
  \<open>length\<close> is the length of a list. \<^verbatim>\<open>attributes\<close> is a dictionary the module never
  reads; it is a map, so that two operations are equal when their dictionaries hold the
  same entries in any order, as under the equality the dataclass generates.
\<close>

record Operation =
  op_type :: OperationType
  position :: int
  content :: "string option"
  length_op :: "int option"
  attributes :: "(string \<rightharpoonup> string) option"
  agent_id :: string
  timestamp :: string
  op_id :: string

text \<open>
  What \<^verbatim>\<open>__post_init__\<close> takes from outside the module: the reading of the clock,
  \<^verbatim>\<open>datetime.utcnow().isoformat()\<close>, and \<^verbatim>\<open>hashlib.md5(...).hexdigest()\<close>.
\<close>

record env =
  utcnow_isoformat :: string
  md5_hexdigest :: "string \<Rightarrow> string"

text \<open>Python's \<^verbatim>\<open>str(n)\<close> of an integer, which the f-string of \<^verbatim>\<open>__post_init__\<close> uses.\<close>

fun str_nat :: "nat \<Rightarrow> string" where
  "str_nat n =
     (if n < 10 then [''0123456789'' ! n]
      else str_nat (n div 10) @ [''0123456789'' ! (n mod 10)])"

definition str_int :: "int \<Rightarrow> string" where
  "str_int i = (if i < 0 then CHR ''-'' # str_nat (nat (- i)) else str_nat (nat i))"

text \<open>
  \<^verbatim>\<open>__post_init__\<close>: an empty timestamp becomes the clock's reading, then an empty
  \<^verbatim>\<open>op_id\<close> becomes the first eight characters of the digest of kind, position,
  timestamp and agent.
\<close>

definition post_init :: "env \<Rightarrow> Operation \<Rightarrow> Operation" where
  "post_init e self =
     (let self = (if timestamp self = [] then self\<lparr>timestamp := utcnow_isoformat e\<rparr> else self)
      in if op_id self = []
         then self\<lparr>op_id := take 8 (md5_hexdigest e
                (op_type_value (op_type self) @ str_int (position self)
                 @ timestamp self @ agent_id self))\<rparr>
         else self)"

text \<open>
  The constructor as \<^verbatim>\<open>transform_operation\<close> calls it: kind, position, content,
  length and agent are given, the other fields take their defaults, and
  \<^verbatim>\<open>__post_init__\<close> runs.
\<close>

definition new_Operation ::
  "env \<Rightarrow> OperationType \<Rightarrow> int \<Rightarrow> string option \<Rightarrow> int option \<Rightarrow> string \<Rightarrow> Operation" where
  "new_Operation e ty pos cont len agent =
     post_init e \<lparr>op_type = ty, position = pos, content = cont, length_op = len,
                  attributes = None, agent_id = agent, timestamp = [], op_id = []\<rparr>"

subsection \<open>Slices\<close>

text \<open>
  Python's \<^verbatim>\<open>s[:i]\<close> and \<^verbatim>\<open>s[i:]\<close>: a negative bound counts from the end, and a
  bound outside the string is clamped to it.
\<close>

definition slice_bound :: "int \<Rightarrow> nat \<Rightarrow> nat" where
  "slice_bound i n = (if i < 0 then nat (max 0 (i + int n)) else min (nat i) n)"

definition slice_to :: "'a list \<Rightarrow> int \<Rightarrow> 'a list" where
  "slice_to s i = take (slice_bound i (length s)) s"

definition slice_from :: "'a list \<Rightarrow> int \<Rightarrow> 'a list" where
  "slice_from s i = drop (slice_bound i (length s)) s"

subsection \<open>The document state\<close>

text \<open>
  The fields of \<^verbatim>\<open>DocumentState\<close> without the lock. The text of the document is
  \<open>content\<close>; the field of the same name of an operation is \<open>Operation.content\<close>.
\<close>

record DocumentState =
  document_id :: string
  content :: string
  version :: int
  operations :: "Operation list"
  pending_operations :: "(string \<times> Operation list) list"

definition DocumentState_init :: "string \<Rightarrow> DocumentState" where
  "DocumentState_init d =
     \<lparr>document_id = d, content = [], version = 0, operations = [], pending_operations = []\<rparr>"

text \<open>
  \<^verbatim>\<open>apply_operation\<close> returns its boolean and the state after. \<^verbatim>\<open>op.content and ...\<close>
  and \<^verbatim>\<open>op.length and ...\<close> test truthiness: \<^verbatim>\<open>None\<close>, the empty string and 0 all
  fail the test. With the fields typed as the dataclass declares them no statement of the
  \<^verbatim>\<open>try\<close> block raises, so the \<^verbatim>\<open>except\<close> branch has no counterpart here.
\<close>

definition apply_operation :: "DocumentState \<Rightarrow> Operation \<Rightarrow> bool \<times> DocumentState" where
  "apply_operation self op =
     (if op_type op = INSERT then
        (case Operation.content op of
           None \<Rightarrow> (False, self)
         | Some text \<Rightarrow>
             if text \<noteq> [] \<and> 0 \<le> position op \<and> position op \<le> int (length (content self))
             then (True, self\<lparr>content := slice_to (content self) (position op) @ text
                                            @ slice_from (content self) (position op),
                               version := version self + 1,
                               operations := operations self @ [op]\<rparr>)
             else (False, self))
      else if op_type op = DELETE then
        (case length_op op of
           None \<Rightarrow> (False, self)
         | Some len \<Rightarrow>
             if len \<noteq> 0 \<and> 0 \<le> position op \<and> position op < int (length (content self))
             then (let end_pos = min (position op + len) (int (length (content self)))
                   in (True, self\<lparr>content := slice_to (content self) (position op)
                                                @ slice_from (content self) end_pos,
                                    version := version self + 1,
                                    operations := operations self @ [op]\<rparr>))
             else (False, self))
      else if op_type op = FORMAT then
        (True, self\<lparr>version := version self + 1, operations := operations self @ [op]\<rparr>)
      else (False, self))"

text \<open>
  \<^verbatim>\<open>x or d\<close> of \<^verbatim>\<open>transform_operation\<close>: the default \<open>d\<close> replaces a value that is
  absent, empty or 0.
\<close>

definition str_or :: "string option \<Rightarrow> string \<Rightarrow> string" where
  "str_or x d = (case x of None \<Rightarrow> d | Some s \<Rightarrow> if s = [] then d else s)"

definition int_or :: "int option \<Rightarrow> int \<Rightarrow> int" where
  "int_or x d = (case x of None \<Rightarrow> d | Some n \<Rightarrow> if n = 0 then d else n)"

text \<open>
  \<^verbatim>\<open>transform_operation\<close> on values: the operation it returns, either \<open>op1\<close> as it is
  or one it constructs, which takes its timestamp and \<^verbatim>\<open>op_id\<close> from \<open>post_init\<close>.
  Agent ids compare as Python strings do, lexicographically.
\<close>

definition transform_operation :: "env \<Rightarrow> Operation \<Rightarrow> Operation \<Rightarrow> Operation" where
  "transform_operation e op1 op2 =
     (if op_type op1 = INSERT \<and> op_type op2 = INSERT then
        (if position op1 < position op2 then op1
         else if position op1 > position op2 then
           new_Operation e (op_type op1)
             (position op1 + int (length (str_or (Operation.content op2) [])))
             (Operation.content op1) None (agent_id op1)
         else if agent_id op1 < agent_id op2 then op1
         else
           new_Operation e (op_type op1)
             (position op1 + int (length (str_or (Operation.content op2) [])))
             (Operation.content op1) None (agent_id op1))
      else if op_type op1 = DELETE \<and> op_type op2 = INSERT then
        (if position op1 < position op2 then op1
         else
           new_Operation e (op_type op1)
             (position op1 + int (length (str_or (Operation.content op2) [])))
             None (length_op op1) (agent_id op1))
      else if op_type op1 = INSERT \<and> op_type op2 = DELETE then
        (if position op1 \<le> position op2 then op1
         else if position op1 > position op2 + int_or (length_op op2) 0 then
           new_Operation e (op_type op1) (position op1 - int_or (length_op op2) 0)
             (Operation.content op1) None (agent_id op1)
         else
           new_Operation e (op_type op1) (position op2)
             (Operation.content op1) None (agent_id op1))
      else op1)"

text \<open>
  The same method on references. Python passes and returns objects by reference, so
  whether the result is one of the arguments or a new object is visible to the caller.
  The store is the list of the operations allocated so far, a reference is an index into
  it, and a constructor call allocates the next index. \<^verbatim>\<open>return op1\<close> returns the
  reference it was given. Python has no dangling references: the references a caller
  holds are indices below the length of the store, which the theorems assume.
\<close>

type_synonym store = "Operation list"

definition alloc :: "store \<Rightarrow> Operation \<Rightarrow> store \<times> nat" where
  "alloc h v = (h @ [v], length h)"

definition transform_operation_ref :: "env \<Rightarrow> store \<Rightarrow> nat \<Rightarrow> nat \<Rightarrow> store \<times> nat" where
  "transform_operation_ref e h r1 r2 =
     (let op1 = h ! r1; op2 = h ! r2 in
      if op_type op1 = INSERT \<and> op_type op2 = INSERT then
        (if position op1 < position op2 then (h, r1)
         else if position op1 > position op2 then
           alloc h (new_Operation e (op_type op1)
             (position op1 + int (length (str_or (Operation.content op2) [])))
             (Operation.content op1) None (agent_id op1))
         else if agent_id op1 < agent_id op2 then (h, r1)
         else
           alloc h (new_Operation e (op_type op1)
             (position op1 + int (length (str_or (Operation.content op2) [])))
             (Operation.content op1) None (agent_id op1)))
      else if op_type op1 = DELETE \<and> op_type op2 = INSERT then
        (if position op1 < position op2 then (h, r1)
         else
           alloc h (new_Operation e (op_type op1)
             (position op1 + int (length (str_or (Operation.content op2) [])))
             None (length_op op1) (agent_id op1)))
      else if op_type op1 = INSERT \<and> op_type op2 = DELETE then
        (if position op1 \<le> position op2 then (h, r1)
         else if position op1 > position op2 + int_or (length_op op2) 0 then
           alloc h (new_Operation e (op_type op1) (position op1 - int_or (length_op op2) 0)
             (Operation.content op1) None (agent_id op1))
         else
           alloc h (new_Operation e (op_type op1) (position op2)
             (Operation.content op1) None (agent_id op1)))
      else (h, r1))"

subsection \<open>Sessions and the manager\<close>

text \<open>
  A session owns one document state; the three dictionaries are empty when it is
  constructed. Its document id is \<open>document_id\<close>, that of a document state
  \<open>DocumentState.document_id\<close>.
\<close>

record CollaborativeSession =
  document_id :: string
  document_state :: DocumentState
  connected_agents :: "string \<rightharpoonup> (string \<times> string) list"
  cursor_positions :: "string \<rightharpoonup> int"
  selection_ranges :: "string \<rightharpoonup> int \<times> int"

definition CollaborativeSession_init :: "string \<Rightarrow> CollaborativeSession" where
  "CollaborativeSession_init d =
     \<lparr>document_id = d, document_state = DocumentState_init d, connected_agents = Map.empty,
      cursor_positions = Map.empty, selection_ranges = Map.empty\<rparr>"

record CollaborationManager =
  sessions :: "string \<rightharpoonup> CollaborativeSession"
  operation_queue :: "(string \<times> Operation) list"

definition CollaborationManager_init :: CollaborationManager where
  "CollaborationManager_init = \<lparr>sessions = Map.empty, operation_queue = []\<rparr>"

text \<open>
  \<^verbatim>\<open>create_session\<close> returns the session of the document id, which it constructs and
  seeds with \<open>initial_content\<close> only when the id has none.
\<close>

definition create_session ::
  "CollaborationManager \<Rightarrow> string \<Rightarrow> string \<Rightarrow> CollaborationManager \<times> CollaborativeSession" where
  "create_session self d initial_content =
     (case sessions self d of
        None \<Rightarrow>
          (let session = CollaborativeSession_init d;
               session = session\<lparr>document_state :=
                           (document_state session)\<lparr>content := initial_content\<rparr>\<rparr>
           in (self\<lparr>sessions := (sessions self)(d \<mapsto> session)\<rparr>, session))
      | Some session \<Rightarrow> (self, session))"

definition get_session :: "CollaborationManager \<Rightarrow> string \<Rightarrow> CollaborativeSession option" where
  "get_session self d = sessions self d"

text \<open>The two dictionaries \<^verbatim>\<open>process_operation\<close> returns.\<close>

datatype process_result = Success int string | Failure string

definition process_operation ::
  "CollaborationManager \<Rightarrow> string \<Rightarrow> Operation \<Rightarrow> process_result \<times> CollaborationManager" where
  "process_operation self d operation =
     (case get_session self d of
        None \<Rightarrow> (Failure ''Session not found'', self)
      | Some session \<Rightarrow>
          (let (success, st) = apply_operation (document_state session) operation;
               self = self\<lparr>sessions := (sessions self)(d \<mapsto> session\<lparr>document_state := st\<rparr>)\<rparr>
           in if success
              then (Success (version st) (op_id operation),
                    self\<lparr>operation_queue := operation_queue self @ [(d, operation)]\<rparr>)
              else (Failure ''Failed to apply operation'', self)))"

text \<open>
  \<^verbatim>\<open>list.index\<close>: the index of the first element equal to \<open>x\<close>; \<open>None\<close> is its
  \<^verbatim>\<open>ValueError\<close>. The equality is the one the dataclass generates, on all fields.
\<close>

fun index :: "'a list \<Rightarrow> 'a \<Rightarrow> nat option" where
  "index [] x = None"
| "index (y # ys) x = (if y = x then Some 0 else map_option Suc (index ys x))"

datatype py_error = ValueError

text \<open>
  The comprehension of \<^verbatim>\<open>get_pending_operations\<close>: it walks the log and keeps the
  operations whose \<^verbatim>\<open>index\<close> in the whole log is at least \<open>since_version\<close>.
\<close>

fun pending_since :: "Operation list \<Rightarrow> Operation list \<Rightarrow> int \<Rightarrow> py_error + Operation list" where
  "pending_since log [] since_version = Inr []"
| "pending_since log (op # rest) since_version =
     (case index log op of
        None \<Rightarrow> Inl ValueError
      | Some i \<Rightarrow>
          (case pending_since log rest since_version of
             Inl err \<Rightarrow> Inl err
           | Inr kept \<Rightarrow> Inr (if int i \<ge> since_version then op # kept else kept)))"

definition get_pending_operations ::
  "CollaborationManager \<Rightarrow> string \<Rightarrow> int \<Rightarrow> py_error + Operation list" where
  "get_pending_operations self d since_version =
     (case get_session self d of
        None \<Rightarrow> Inr []
      | Some session \<Rightarrow>
          pending_since (operations (document_state session))
            (operations (document_state session)) since_version)"

subsection \<open>Reachable states and replay\<close>

text \<open>The document states that calls of \<open>apply_operation\<close> lead to from \<open>s0\<close>.\<close>

inductive reachable :: "DocumentState \<Rightarrow> DocumentState \<Rightarrow> bool" for s0 :: DocumentState where
  start: "reachable s0 s0"
| step: "reachable s0 s \<Longrightarrow> reachable s0 (snd (apply_operation s op))"

text \<open>
  Replaying a log, as the specification describes it: a document state that starts with
  the text \<open>init\<close> and an empty log applies the logged operations in log order; the
  result is its text. The specification replays from the empty string, \<open>replay []\<close>.
\<close>

definition replay_state :: "string \<Rightarrow> string \<Rightarrow> Operation list \<Rightarrow> DocumentState" where
  "replay_state d init log =
     foldl (\<lambda>s op. snd (apply_operation s op)) ((DocumentState_init d)\<lparr>content := init\<rparr>) log"

definition replay :: "string \<Rightarrow> Operation list \<Rightarrow> string" where
  "replay init log = content (replay_state [] init log)"

subsection \<open>Notions the properties use\<close>

text \<open>
  The pairs for which \<open>transform_operation\<close> takes a branch that calls the constructor,
  read off its conditions: the other pairs reach a \<^verbatim>\<open>return op1\<close>.
\<close>

definition constructs :: "Operation \<Rightarrow> Operation \<Rightarrow> bool" where
  "constructs op1 op2 \<longleftrightarrow>
     op_type op1 = INSERT \<and> op_type op2 = INSERT \<and>
       (position op1 > position op2
        \<or> position op1 = position op2 \<and> \<not> agent_id op1 < agent_id op2)
     \<or> op_type op1 = DELETE \<and> op_type op2 = INSERT \<and> position op1 \<ge> position op2
     \<or> op_type op1 = INSERT \<and> op_type op2 = DELETE \<and> position op1 > position op2"

text \<open>The log of the session of a document id, empty when the id has no session.\<close>

definition session_log :: "CollaborationManager \<Rightarrow> string \<Rightarrow> Operation list" where
  "session_log self d =
     (case get_session self d of
        None \<Rightarrow> []
      | Some session \<Rightarrow> operations (document_state session))"

text \<open>
  The pending operations as the specification describes the direct way to compute them:
  the suffix \<^verbatim>\<open>operations[since_version:]\<close> of the log.
\<close>

definition pending_by_slice :: "CollaborationManager \<Rightarrow> string \<Rightarrow> int \<Rightarrow> Operation list" where
  "pending_by_slice self d since_version = slice_from (session_log self d) since_version"

subsection \<open>Concrete inputs\<close>

text \<open>
  The inputs the theorems below are evaluated at: an environment, an operation with a
  timestamp and an id already assigned, and the document state of a session created with
  the text ``Hello World''.
\<close>

definition env0 :: env where
  "env0 = \<lparr>utcnow_isoformat = ''2024-01-01T00:00:00'',
           md5_hexdigest = (\<lambda>data. ''9e107d9d372bb6826bd81d3542a419d6'')\<rparr>"

definition mk_op ::
  "OperationType \<Rightarrow> int \<Rightarrow> string option \<Rightarrow> int option \<Rightarrow> string \<Rightarrow> Operation" where
  "mk_op ty p c n a =
     \<lparr>op_type = ty, position = p, content = c, length_op = n, attributes = None,
      agent_id = a, timestamp = ''2024-01-01T00:00:00'', op_id = ''0a1b2c3d''\<rparr>"

definition created :: DocumentState where
  "created =
     document_state (snd (create_session CollaborationManager_init ''doc1'' ''Hello World''))"

definition beautiful :: Operation where
  "beautiful = mk_op INSERT 5 (Some '' Beautiful'') None ''agent1''"

text \<open>
  A format operation, and the manager after a session for ``doc1'' was created empty and
  that one operation was processed twice.
\<close>

definition bold :: Operation where
  "bold =
     \<lparr>op_type = FORMAT, position = 0, content = None, length_op = None,
      attributes = Some [''bold'' \<mapsto> ''true''], agent_id = ''agent1'',
      timestamp = ''2024-01-01T00:00:00'', op_id = ''0a1b2c3d''\<rparr>"

definition processed_twice :: CollaborationManager where
  "processed_twice =
     snd (process_operation
            (snd (process_operation
                    (fst (create_session CollaborationManager_init ''doc1'' [])) ''doc1'' bold))
            ''doc1'' bold)"

section \<open>Properties\<close>

subsection \<open>Auxiliary facts\<close>

lemma mk_op_sel:
  "op_type (mk_op ty p c n a) = ty" "position (mk_op ty p c n a) = p"
  "Operation.content (mk_op ty p c n a) = c" "length_op (mk_op ty p c n a) = n"
  "agent_id (mk_op ty p c n a) = a"
  by (simp_all add: mk_op_def)

lemma slice_to_in_range:
  "0 \<le> p \<Longrightarrow> p \<le> int (length s) \<Longrightarrow> slice_to s p = take (nat p) s"
  by (simp add: slice_to_def slice_bound_def)

lemma slice_from_in_range:
  "0 \<le> p \<Longrightarrow> p \<le> int (length s) \<Longrightarrow> slice_from s p = drop (nat p) s"
  by (simp add: slice_from_def slice_bound_def)

lemma apply_version:
  "version (snd (apply_operation self op))
     = version self + (if fst (apply_operation self op) then 1 else 0)"
  by (auto simp: apply_operation_def Let_def split: option.splits)

lemma apply_operations:
  "operations (snd (apply_operation self op))
     = operations self @ (if fst (apply_operation self op) then [op] else [])"
  by (auto simp: apply_operation_def Let_def split: option.splits)

lemma apply_failed_unchanged:
  "\<not> fst (apply_operation self op) \<Longrightarrow> apply_operation self op = (False, self)"
  by (auto simp: apply_operation_def Let_def split: option.splits if_splits)

lemma create_session_fresh:
  "sessions m d = None \<Longrightarrow>
   document_state (snd (create_session m d init)) = (DocumentState_init d)\<lparr>content := init\<rparr>"
  by (simp add: create_session_def CollaborativeSession_init_def Let_def)

lemma no_session_yet: "sessions CollaborationManager_init d = None"
  by (simp add: CollaborationManager_init_def)

lemma created_eq: "created = (DocumentState_init ''doc1'')\<lparr>content := ''Hello World''\<rparr>"
  unfolding created_def by (rule create_session_fresh) (rule no_session_yet)

lemma created_content: "content created = ''Hello World''"
  by (simp add: created_eq)

lemma created_reaches: "reachable created (snd (apply_operation created beautiful))"
  by (rule reachable.step) (rule reachable.start)

lemma apply_beautiful:
  "apply_operation created beautiful
     = (True, created\<lparr>content := ''Hello Beautiful World'', version := 1,
                     operations := [beautiful]\<rparr>)"
  by (simp add: apply_operation_def beautiful_def mk_op_sel created_eq DocumentState_init_def
      slice_to_def slice_from_def slice_bound_def)

subsection \<open>Applying an insert or a delete\<close>

text \<open>
  Claim C2, as the code has it. An insert whose content is a non-empty string and whose
  position \<open>p\<close> satisfies \<open>0 \<le> p \<le> len(c)\<close> is applied: \<open>apply_operation\<close> returns true,
  the new text is \<open>c[:p] + op.content + c[p:]\<close>, the version grows by exactly 1, the
  operation is appended to the log, and nothing else of the state changes.
\<close>

theorem insert_applies:
  assumes "op_type op = INSERT" and "Operation.content op = Some text" and "text \<noteq> []"
    and "0 \<le> position op" and "position op \<le> int (length (content self))"
  shows "apply_operation self op =
           (True, self\<lparr>content := take (nat (position op)) (content self) @ text
                                     @ drop (nat (position op)) (content self),
                        version := version self + 1,
                        operations := operations self @ [op]\<rparr>)"
  using assms by (simp add: apply_operation_def slice_to_in_range slice_from_in_range)

theorem insert_applies_witness:
  "apply_operation created (mk_op INSERT 5 (Some '' Beautiful'') None ''agent1'') =
     (True, created\<lparr>content := ''Hello Beautiful World'', version := 1,
                     operations := [mk_op INSERT 5 (Some '' Beautiful'') None ''agent1'']\<rparr>)"
  using insert_applies [of "mk_op INSERT 5 (Some '' Beautiful'') None ''agent1''"
      "'' Beautiful''" created]
  by (simp add: mk_op_sel created_eq DocumentState_init_def)

text \<open>
  Claim C2 as stated asks only that the content is provided. An insert whose content is
  the empty string at a position inside the text is refused.
\<close>

theorem insert_empty_content_refused:
  "op_type (mk_op INSERT 5 (Some []) None ''agent1'') = INSERT \<and>
   Operation.content (mk_op INSERT 5 (Some []) None ''agent1'') = Some [] \<and>
   0 \<le> position (mk_op INSERT 5 (Some []) None ''agent1'') \<and>
   position (mk_op INSERT 5 (Some []) None ''agent1'') \<le> int (length (content created)) \<and>
   \<not> fst (apply_operation created (mk_op INSERT 5 (Some []) None ''agent1''))"
  by (simp add: apply_operation_def mk_op_sel created_content)

text \<open>
  Claim C3, as the code has it. A delete whose length is at least 1 and whose position
  \<open>p\<close> satisfies \<open>0 \<le> p < len(c)\<close> is applied: \<open>apply_operation\<close> returns true, the new
  text is \<open>c\<close> without the \<open>min(length, len(c) - p)\<close> characters that start at \<open>p\<close> (a
  delete that reaches past the end is clamped), the version grows by exactly 1, the
  operation is appended to the log, and nothing else of the state changes.
\<close>

theorem delete_applies:
  assumes "op_type op = DELETE" and "length_op op = Some len" and "0 < len"
    and "0 \<le> position op" and "position op < int (length (content self))"
  shows "apply_operation self op =
           (True, self\<lparr>content := take (nat (position op)) (content self)
                          @ drop (nat (position op)
                                  + nat (min len (int (length (content self)) - position op)))
                              (content self),
                        version := version self + 1,
                        operations := operations self @ [op]\<rparr>)
         \<and> int (length (content (snd (apply_operation self op))))
             = int (length (content self)) - min len (int (length (content self)) - position op)"
proof -
  let ?n = "int (length (content self))"
  let ?e = "min (position op + len) ?n"
  have e: "0 \<le> ?e" "?e \<le> ?n"
    using assms by auto
  have n: "nat ?e = nat (position op) + nat (min len (?n - position op))"
    using assms by (auto simp: min_def)
  have ap: "apply_operation self op =
      (True, self\<lparr>content := take (nat (position op)) (content self)
                                @ drop (nat ?e) (content self),
                   version := version self + 1, operations := operations self @ [op]\<rparr>)"
    using assms e
    by (simp add: apply_operation_def Let_def slice_to_in_range slice_from_in_range
        del: min_less_iff_conj)
  show ?thesis
    unfolding ap n using assms by (auto simp: min_def)
qed

theorem delete_applies_witness:
  "apply_operation created (mk_op DELETE 5 None (Some 100) ''agent1'') =
     (True, created\<lparr>content := ''Hello'', version := 1,
                     operations := [mk_op DELETE 5 None (Some 100) ''agent1'']\<rparr>)
   \<and> apply_operation created (mk_op DELETE 0 None (Some 6) ''agent1'') =
     (True, created\<lparr>content := ''World'', version := 1,
                     operations := [mk_op DELETE 0 None (Some 6) ''agent1'']\<rparr>)"
  using delete_applies [of "mk_op DELETE 5 None (Some 100) ''agent1''" 100 created]
    delete_applies [of "mk_op DELETE 0 None (Some 6) ''agent1''" 6 created]
  by (simp add: mk_op_sel created_eq DocumentState_init_def)

text \<open>
  Claim C3 as stated asks only that the length is provided. A delete of length 0 at a
  position inside the text is refused.
\<close>

theorem delete_zero_length_refused:
  "op_type (mk_op DELETE 5 None (Some 0) ''agent1'') = DELETE \<and>
   length_op (mk_op DELETE 5 None (Some 0) ''agent1'') = Some 0 \<and>
   0 \<le> position (mk_op DELETE 5 None (Some 0) ''agent1'') \<and>
   position (mk_op DELETE 5 None (Some 0) ''agent1'') < int (length (content created)) \<and>
   \<not> fst (apply_operation created (mk_op DELETE 5 None (Some 0) ''agent1''))"
  by (simp add: apply_operation_def mk_op_sel created_content)

subsection \<open>Refused operations\<close>

text \<open>
  Claim C4. An operation of kind cursor-move, an insert with a position below 0 or above
  \<open>len(content)\<close>, a delete with a position outside \<open>[0, len(content))\<close>, an insert without
  content, a delete without length, and more generally any operation for which
  \<open>apply_operation\<close> does not return true: \<open>apply_operation\<close> returns false and the state
  after it is the state before it, with the same content, version and log.
\<close>

theorem apply_rejects:
  assumes "op_type op = CURSOR
     \<or> op_type op = INSERT \<and> (position op < 0 \<or> int (length (content self)) < position op)
     \<or> op_type op = DELETE \<and> (position op < 0 \<or> int (length (content self)) \<le> position op)
     \<or> op_type op = INSERT \<and> Operation.content op = None
     \<or> op_type op = DELETE \<and> length_op op = None
     \<or> \<not> fst (apply_operation self op)"
  shows "apply_operation self op = (False, self)"
proof -
  have "\<not> fst (apply_operation self op)"
    using assms by (auto simp: apply_operation_def split: option.splits)
  then show ?thesis by (rule apply_failed_unchanged)
qed

theorem apply_rejects_witness:
  "apply_operation created (mk_op CURSOR 3 None None ''agent1'') = (False, created) \<and>
   apply_operation created (mk_op INSERT 12 (Some ''x'') None ''agent1'') = (False, created) \<and>
   apply_operation created (mk_op INSERT (- 1) (Some ''x'') None ''agent1'') = (False, created) \<and>
   apply_operation created (mk_op DELETE 100 None (Some 2) ''agent1'') = (False, created) \<and>
   apply_operation created (mk_op DELETE (- 1) None (Some 2) ''agent1'') = (False, created) \<and>
   apply_operation created (mk_op INSERT 0 None None ''agent1'') = (False, created) \<and>
   apply_operation created (mk_op DELETE 0 None None ''agent1'') = (False, created)"
proof -
  have 1: "apply_operation created (mk_op CURSOR 3 None None ''agent1'') = (False, created)"
    by (rule apply_rejects) (simp add: mk_op_sel)
  have 2: "apply_operation created (mk_op INSERT 12 (Some ''x'') None ''agent1'')
             = (False, created)"
    by (rule apply_rejects) (simp add: mk_op_sel created_content)
  have 3: "apply_operation created (mk_op INSERT (- 1) (Some ''x'') None ''agent1'')
             = (False, created)"
    by (rule apply_rejects) (simp add: mk_op_sel)
  have 4: "apply_operation created (mk_op DELETE 100 None (Some 2) ''agent1'')
             = (False, created)"
    by (rule apply_rejects) (simp add: mk_op_sel created_content)
  have 5: "apply_operation created (mk_op DELETE (- 1) None (Some 2) ''agent1'')
             = (False, created)"
    by (rule apply_rejects) (simp add: mk_op_sel)
  have 6: "apply_operation created (mk_op INSERT 0 None None ''agent1'') = (False, created)"
    by (rule apply_rejects) (simp add: mk_op_sel)
  have 7: "apply_operation created (mk_op DELETE 0 None None ''agent1'') = (False, created)"
    by (rule apply_rejects) (simp add: mk_op_sel)
  show ?thesis
    using 1 2 3 4 5 6 7 by blast
qed

text \<open>
  Claim C10. An insert whose content is the empty string and a delete whose length is 0
  are refused whatever their position, also a position that is valid for their kind:
  \<open>apply_operation\<close> returns false and the state, with its content, version and log, is
  unchanged.
\<close>

theorem empty_edit_rejected:
  assumes "op_type op = INSERT \<and> Operation.content op = Some []
           \<or> op_type op = DELETE \<and> length_op op = Some 0"
  shows "apply_operation self op = (False, self)"
  using assms by (auto simp: apply_operation_def)

theorem empty_edit_rejected_witness:
  "0 \<le> (5::int) \<and> 5 < int (length (content created)) \<and>
   apply_operation created (mk_op INSERT 5 (Some []) None ''agent1'') = (False, created) \<and>
   apply_operation created (mk_op DELETE 5 None (Some 0) ''agent1'') = (False, created)"
proof -
  have 1: "apply_operation created (mk_op INSERT 5 (Some []) None ''agent1'') = (False, created)"
    by (rule empty_edit_rejected) (simp add: mk_op_sel)
  have 2: "apply_operation created (mk_op DELETE 5 None (Some 0) ''agent1'') = (False, created)"
    by (rule empty_edit_rejected) (simp add: mk_op_sel)
  show ?thesis
    using 1 2 by (simp add: created_content)
qed

subsection \<open>The version counts the log\<close>

lemma reachable_version:
  "reachable s0 s \<Longrightarrow> version s0 = int (length (operations s0)) \<Longrightarrow>
   version s = int (length (operations s))"
  by (induction rule: reachable.induct) (simp_all add: apply_version apply_operations)

text \<open>
  Claim C5. \<open>version = len(operations)\<close> holds for a document state as constructed, holds
  for the document state of a session that \<open>create_session\<close> constructs with any initial
  content, is preserved by every \<open>apply_operation\<close> whatever it returns, and so holds in
  every state reachable from a created session; every \<open>apply_operation\<close> adds 1 to the
  version when it returns true and leaves it when it returns false.
\<close>

theorem version_counts_log:
  "version (DocumentState_init d) = int (length (operations (DocumentState_init d))) \<and>
   (sessions m d = None \<longrightarrow>
      version (document_state (snd (create_session m d init)))
        = int (length (operations (document_state (snd (create_session m d init)))))) \<and>
   (version self = int (length (operations self)) \<longrightarrow>
      version (snd (apply_operation self op))
        = int (length (operations (snd (apply_operation self op))))) \<and>
   version (snd (apply_operation self op))
      = version self + (if fst (apply_operation self op) then 1 else 0) \<and>
   (sessions m d = None \<and> reachable (document_state (snd (create_session m d init))) s \<longrightarrow>
      version s = int (length (operations s)))"
proof -
  have a: "version (DocumentState_init d) = int (length (operations (DocumentState_init d)))"
    by (simp add: DocumentState_init_def)
  have b: "version (document_state (snd (create_session m d init)))
        = int (length (operations (document_state (snd (create_session m d init)))))"
    if "sessions m d = None"
    using that by (simp add: create_session_fresh DocumentState_init_def)
  have c: "version (snd (apply_operation self op))
        = int (length (operations (snd (apply_operation self op))))"
    if "version self = int (length (operations self))"
    using that by (simp add: apply_version apply_operations)
  have e: "version s = int (length (operations s))"
    if "sessions m d = None" "reachable (document_state (snd (create_session m d init))) s"
    using reachable_version [OF that(2) b [OF that(1)]] .
  show ?thesis
    using a b c e apply_version by blast
qed

theorem version_counts_log_witness:
  "sessions CollaborationManager_init ''doc1'' = None \<and>
   reachable created (snd (apply_operation created beautiful)) \<and>
   version created = int (length (operations created)) \<and>
   version created = 0 \<and>
   fst (apply_operation created beautiful) \<and>
   version (snd (apply_operation created beautiful)) = 1 \<and>
   int (length (operations (snd (apply_operation created beautiful)))) = 1"
proof -
  note t = version_counts_log [of "''doc1''" CollaborationManager_init "''Hello World''"
      created beautiful "snd (apply_operation created beautiful)", folded created_def]
  have c0: "version created = int (length (operations created))"
    by (rule t [THEN conjunct2, THEN conjunct1, THEN mp, OF no_session_yet])
  have c1: "version (snd (apply_operation created beautiful))
      = int (length (operations (snd (apply_operation created beautiful))))"
    by (rule t [THEN conjunct2, THEN conjunct2, THEN conjunct2, THEN conjunct2, THEN mp,
          OF conjI [OF no_session_yet created_reaches]])
  have c2: "version (snd (apply_operation created beautiful))
      = version created + (if fst (apply_operation created beautiful) then 1 else 0)"
    by (rule t [THEN conjunct2, THEN conjunct2, THEN conjunct2, THEN conjunct1])
  have f: "fst (apply_operation created beautiful)"
    by (simp add: apply_beautiful)
  have z: "version created = 0"
    by (simp add: created_eq DocumentState_init_def)
  show ?thesis
    using c0 c1 c2 f z no_session_yet created_reaches by simp
qed

subsection \<open>Replaying the log\<close>

lemma replay_state_snoc:
  "replay_state d init (log @ [op]) = snd (apply_operation (replay_state d init log) op)"
  by (simp add: replay_state_def)

lemma reachable_replay_state:
  "reachable s0 s \<Longrightarrow> s0 = (DocumentState_init d)\<lparr>content := init\<rparr> \<Longrightarrow>
   replay_state d init (operations s) = s"
proof (induction rule: reachable.induct)
  case start
  then show ?case by (simp add: replay_state_def DocumentState_init_def)
next
  case (step s op)
  show ?case
  proof (cases "fst (apply_operation s op)")
    case True
    then show ?thesis using step by (simp add: apply_operations replay_state_snoc)
  next
    case False
    then show ?thesis using step by (simp add: apply_failed_unchanged)
  qed
qed

lemma apply_document_id:
  "apply_operation (self\<lparr>DocumentState.document_id := d\<rparr>) op
     = (fst (apply_operation self op),
        (snd (apply_operation self op))\<lparr>DocumentState.document_id := d\<rparr>)"
  by (auto simp: apply_operation_def Let_def split: option.splits)

lemma replay_state_document_id:
  "replay_state d init log = (replay_state d' init log)\<lparr>DocumentState.document_id := d\<rparr>"
proof (induction log rule: rev_induct)
  case Nil
  show ?case by (simp add: replay_state_def DocumentState_init_def)
next
  case (snoc op log)
  show ?case
    unfolding replay_state_snoc
    by (subst snoc.IH) (simp add: apply_document_id)
qed

lemma replay_content: "replay init log = content (replay_state d init log)"
  unfolding replay_def by (subst replay_state_document_id [of d init log "[]"]) simp

text \<open>
  Claim C1, as the code has it. \<open>create_session\<close> seeds the text with the initial content
  and leaves the log empty, so the log is a history of the text from the initial content
  on: in every state reachable from a session created with \<open>init\<close> by any sequence of
  \<open>apply_operation\<close> calls, replaying the log from \<open>init\<close> reproduces the live content, and
  the whole state. For a session created with the empty string this is the replay from
  the empty string.
\<close>

theorem replay_from_initial_content:
  assumes "sessions m d = None"
    and "reachable (document_state (snd (create_session m d init))) s"
  shows "replay init (operations s) = content s \<and> replay_state d init (operations s) = s"
proof -
  have "replay_state d init (operations s) = s"
    using assms(2) create_session_fresh [OF assms(1)] by (rule reachable_replay_state)
  then show ?thesis by (simp add: replay_content [of init "operations s" d])
qed

theorem replay_from_initial_content_witness:
  "sessions CollaborationManager_init ''doc1'' = None \<and>
   reachable created (snd (apply_operation created beautiful)) \<and>
   replay ''Hello World'' [beautiful] = ''Hello Beautiful World''"
proof -
  have "replay ''Hello World'' (operations (snd (apply_operation created beautiful)))
          = content (snd (apply_operation created beautiful))"
    using replay_from_initial_content [OF no_session_yet created_reaches [unfolded created_def]]
    by (simp add: created_def)
  then have "replay ''Hello World'' [beautiful] = ''Hello Beautiful World''"
    by (simp add: apply_beautiful)
  then show ?thesis
    using no_session_yet created_reaches by simp
qed

text \<open>
  Claim C1 as stated replays from the empty string. The document state of a session
  created with ``Hello World'' has that text and an empty log, and the replay of the
  empty log from the empty string is the empty string.
\<close>

theorem replay_from_empty_counterexample:
  "reachable created created \<and> replay [] (operations created) \<noteq> content created"
  by (simp add: reachable.start)
    (simp add: created_eq replay_def replay_state_def DocumentState_init_def)

subsection \<open>Transforming an insert\<close>

lemma new_Operation_sel:
  "op_type (new_Operation e ty p c n a) = ty" "position (new_Operation e ty p c n a) = p"
  "Operation.content (new_Operation e ty p c n a) = c" "length_op (new_Operation e ty p c n a) = n"
  "agent_id (new_Operation e ty p c n a) = a" "attributes (new_Operation e ty p c n a) = None"
  by (simp_all add: new_Operation_def post_init_def Let_def)

lemma str_or_Some: "str_or (Some s) [] = s"
  by (simp add: str_or_def)

lemma int_or_0: "int_or x 0 = (case x of None \<Rightarrow> 0 | Some n \<Rightarrow> n)"
  by (simp add: int_or_def split: option.splits)

text \<open>
  Claim C6. Two inserts \<open>A\<close> and \<open>B\<close> at the same position from agents with distinct ids:
  one of the two ids is the smaller in the lexicographic order; when it is that of \<open>A\<close>,
  transforming \<open>A\<close> against \<open>B\<close> returns \<open>A\<close> itself and transforming \<open>B\<close> against \<open>A\<close>
  returns \<open>B\<close> moved right by the length of the content of \<open>A\<close>, with its kind, content
  and agent; when it is that of \<open>B\<close>, the same with the roles exchanged. The length of the
  content is \<open>len(op.content or "")\<close>, the length of the content when there is one.
\<close>

theorem insert_tie_break:
  assumes "op_type A = INSERT" and "op_type B = INSERT"
    and "position A = position B" and "agent_id A \<noteq> agent_id B"
  shows "(agent_id A < agent_id B \<or> agent_id B < agent_id A) \<and>
    (agent_id A < agent_id B \<longrightarrow>
       transform_operation e1 A B = A \<and>
       position (transform_operation e2 B A)
         = position B + int (length (str_or (Operation.content A) [])) \<and>
       op_type (transform_operation e2 B A) = INSERT \<and>
       Operation.content (transform_operation e2 B A) = Operation.content B \<and>
       agent_id (transform_operation e2 B A) = agent_id B) \<and>
    (agent_id B < agent_id A \<longrightarrow>
       transform_operation e2 B A = B \<and>
       position (transform_operation e1 A B)
         = position A + int (length (str_or (Operation.content B) [])) \<and>
       op_type (transform_operation e1 A B) = INSERT \<and>
       Operation.content (transform_operation e1 A B) = Operation.content A \<and>
       agent_id (transform_operation e1 A B) = agent_id A)"
proof -
  have total: "agent_id A < agent_id B \<or> agent_id B < agent_id A"
    using assms(4) by (rule linorder_neqE) simp_all
  have left: "transform_operation e X Y = X"
    if "op_type X = INSERT" "op_type Y = INSERT" "position X = position Y"
      "agent_id X < agent_id Y" for e X Y
    using that by (simp add: transform_operation_def)
  have right: "transform_operation e Y X
      = new_Operation e INSERT (position Y + int (length (str_or (Operation.content X) [])))
          (Operation.content Y) None (agent_id Y)"
    if "op_type X = INSERT" "op_type Y = INSERT" "position X = position Y"
      "agent_id X < agent_id Y" for e X Y
  proof -
    have "\<not> agent_id Y < agent_id X"
      using that(4) by simp
    then show ?thesis
      using that by (simp add: transform_operation_def)
  qed
  show ?thesis
    using total left [of A B e1] right [of A B e2] left [of B A e2] right [of B A e1] assms
    by (simp add: new_Operation_sel)
qed

theorem insert_tie_break_witness:
  "''agent1'' < ''agent2'' \<and>
   transform_operation env0 (mk_op INSERT 5 (Some ''abc'') None ''agent1'')
       (mk_op INSERT 5 (Some ''xy'') None ''agent2'')
     = mk_op INSERT 5 (Some ''abc'') None ''agent1'' \<and>
   position (transform_operation env0 (mk_op INSERT 5 (Some ''xy'') None ''agent2'')
       (mk_op INSERT 5 (Some ''abc'') None ''agent1'')) = 8"
proof -
  have lt: "''agent1'' < ''agent2''"
    by simp
  note t = insert_tie_break [of "mk_op INSERT 5 (Some ''abc'') None ''agent1''"
      "mk_op INSERT 5 (Some ''xy'') None ''agent2''" env0 env0, unfolded mk_op_sel]
  have "transform_operation env0 (mk_op INSERT 5 (Some ''abc'') None ''agent1'')
       (mk_op INSERT 5 (Some ''xy'') None ''agent2'')
     = mk_op INSERT 5 (Some ''abc'') None ''agent1'' \<and>
   position (transform_operation env0 (mk_op INSERT 5 (Some ''xy'') None ''agent2'')
       (mk_op INSERT 5 (Some ''abc'') None ''agent1''))
     = 5 + int (length (str_or (Some ''abc'') []))"
    using t lt by simp
  then show ?thesis
    using lt by (simp add: str_or_Some)
qed

text \<open>
  Claim C7, as the code has it. An insert \<open>A\<close> transformed against a delete \<open>B\<close> of
  length \<open>n\<close> (the length is \<open>op.length or 0\<close>, the length when there is one). The code
  tests \<open>A.position \<le> B.position\<close> first: then the result is \<open>A\<close> itself. Otherwise, with
  \<open>A.position > B.position\<close>, it is \<open>A\<close> moved left by \<open>n\<close> when
  \<open>A.position > B.position + n\<close>, and \<open>A\<close> moved to \<open>B.position\<close> when \<open>A.position\<close> lies
  inside the deleted span, \<open>A.position \<le> B.position + n\<close>. For \<open>n \<ge> 0\<close> the condition
  \<open>A.position > B.position + n\<close> alone decides the move to the left. Kind and content are
  those of \<open>A\<close> in all cases.
\<close>

theorem insert_against_delete:
  assumes "op_type A = INSERT" and "op_type B = DELETE"
  shows "(position A \<le> position B \<longrightarrow> transform_operation e A B = A) \<and>
    (position B < position A \<and> position A > position B + int_or (length_op B) 0 \<longrightarrow>
       position (transform_operation e A B) = position A - int_or (length_op B) 0) \<and>
    (position B < position A \<and> position A \<le> position B + int_or (length_op B) 0 \<longrightarrow>
       position (transform_operation e A B) = position B) \<and>
    (0 \<le> int_or (length_op B) 0 \<and> position A > position B + int_or (length_op B) 0 \<longrightarrow>
       position (transform_operation e A B) = position A - int_or (length_op B) 0) \<and>
    op_type (transform_operation e A B) = op_type A \<and>
    Operation.content (transform_operation e A B) = Operation.content A"
  using assms by (simp add: transform_operation_def new_Operation_sel)

theorem insert_against_delete_witness:
  "transform_operation env0 (mk_op INSERT 3 (Some ''abc'') None ''agent1'')
       (mk_op DELETE 5 None (Some 4) ''agent2'')
     = mk_op INSERT 3 (Some ''abc'') None ''agent1'' \<and>
   position (transform_operation env0 (mk_op INSERT 12 (Some ''abc'') None ''agent1'')
       (mk_op DELETE 5 None (Some 4) ''agent2'')) = 8 \<and>
   position (transform_operation env0 (mk_op INSERT 7 (Some ''abc'') None ''agent1'')
       (mk_op DELETE 5 None (Some 4) ''agent2'')) = 5 \<and>
   position (transform_operation env0 (mk_op INSERT 9 (Some ''abc'') None ''agent1'')
       (mk_op DELETE 5 None (Some 4) ''agent2'')) = 5 \<and>
   position (transform_operation env0 (mk_op INSERT 6 (Some ''abc'') None ''agent1'')
       (mk_op DELETE 5 None (Some (- 3)) ''agent2'')) = 9"
proof -
  have 1: "transform_operation env0 (mk_op INSERT 3 (Some ''abc'') None ''agent1'')
       (mk_op DELETE 5 None (Some 4) ''agent2'')
     = mk_op INSERT 3 (Some ''abc'') None ''agent1''"
    using insert_against_delete [of "mk_op INSERT 3 (Some ''abc'') None ''agent1''"
      "mk_op DELETE 5 None (Some 4) ''agent2''" env0]
    by (simp add: mk_op_sel int_or_def)
  have 2: "position (transform_operation env0 (mk_op INSERT 12 (Some ''abc'') None ''agent1'')
       (mk_op DELETE 5 None (Some 4) ''agent2'')) = 8"
    using insert_against_delete [of "mk_op INSERT 12 (Some ''abc'') None ''agent1''"
      "mk_op DELETE 5 None (Some 4) ''agent2''" env0]
    by (simp add: mk_op_sel int_or_def)
  have 3: "position (transform_operation env0 (mk_op INSERT 7 (Some ''abc'') None ''agent1'')
       (mk_op DELETE 5 None (Some 4) ''agent2'')) = 5"
    using insert_against_delete [of "mk_op INSERT 7 (Some ''abc'') None ''agent1''"
      "mk_op DELETE 5 None (Some 4) ''agent2''" env0]
    by (simp add: mk_op_sel int_or_def)
  have 4: "position (transform_operation env0 (mk_op INSERT 9 (Some ''abc'') None ''agent1'')
       (mk_op DELETE 5 None (Some 4) ''agent2'')) = 5"
    using insert_against_delete [of "mk_op INSERT 9 (Some ''abc'') None ''agent1''"
      "mk_op DELETE 5 None (Some 4) ''agent2''" env0]
    by (simp add: mk_op_sel int_or_def)
  have 5: "position (transform_operation env0 (mk_op INSERT 6 (Some ''abc'') None ''agent1'')
       (mk_op DELETE 5 None (Some (- 3)) ''agent2'')) = 9"
    using insert_against_delete [of "mk_op INSERT 6 (Some ''abc'') None ''agent1''"
      "mk_op DELETE 5 None (Some (- 3)) ''agent2''" env0]
    by (simp add: mk_op_sel int_or_def)
  show ?thesis
    using 1 2 3 4 5 by simp
qed

text \<open>
  Claim C7 as stated moves \<open>A\<close> to the left whenever \<open>A.position > B.position + B.length\<close>.
  An insert at position 4 against a delete at position 5 of length -3 meets that
  condition, 4 > 2, and by the claim would move to position 7; the code reaches its first
  test, 4 \<le> 5, and returns \<open>A\<close> at position 4. \<open>apply_operation\<close> accepts such a delete on
  the text ``Hello World''.
\<close>

theorem insert_against_delete_counterexample:
  "op_type (mk_op INSERT 4 (Some ''abc'') None ''agent1'') = INSERT \<and>
   op_type (mk_op DELETE 5 None (Some (- 3)) ''agent2'') = DELETE \<and>
   length_op (mk_op DELETE 5 None (Some (- 3)) ''agent2'') = Some (- 3) \<and>
   position (mk_op INSERT 4 (Some ''abc'') None ''agent1'')
     > position (mk_op DELETE 5 None (Some (- 3)) ''agent2'') + (- 3) \<and>
   position (transform_operation env0 (mk_op INSERT 4 (Some ''abc'') None ''agent1'')
       (mk_op DELETE 5 None (Some (- 3)) ''agent2''))
     \<noteq> position (mk_op INSERT 4 (Some ''abc'') None ''agent1'') - (- 3) \<and>
   transform_operation env0 (mk_op INSERT 4 (Some ''abc'') None ''agent1'')
       (mk_op DELETE 5 None (Some (- 3)) ''agent2'')
     = mk_op INSERT 4 (Some ''abc'') None ''agent1'' \<and>
   fst (apply_operation created (mk_op DELETE 5 None (Some (- 3)) ''agent2''))"
  by (simp add: transform_operation_def apply_operation_def mk_op_sel created_content)

subsection \<open>Pending operations\<close>

lemma index_nth_distinct:
  "distinct xs \<Longrightarrow> i < length xs \<Longrightarrow> index xs (xs ! i) = Some i"
proof (induction xs arbitrary: i)
  case Nil
  then show ?case by simp
next
  case (Cons x xs)
  show ?case
  proof (cases i)
    case 0
    then show ?thesis by simp
  next
    case (Suc j)
    then have "x \<noteq> xs ! j" and "index xs (xs ! j) = Some j"
      using Cons by auto
    then show ?thesis using Suc by simp
  qed
qed

lemma index_member: "x \<in> set xs \<Longrightarrow> index xs x \<noteq> None"
  by (induction xs) auto

lemma pending_since_filter:
  "set rest \<subseteq> set log \<Longrightarrow>
   pending_since log rest v
     = Inr (filter (\<lambda>op. \<exists>i. index log op = Some i \<and> v \<le> int i) rest)"
proof (induction rest)
  case Nil
  show ?case by simp
next
  case (Cons op rest)
  then obtain i where "index log op = Some i"
    using index_member [of op log] by auto
  then show ?case using Cons by simp
qed

text \<open>
  On a log without two equal operations and for a \<open>since_version\<close> that is not negative,
  the comprehension of \<open>get_pending_operations\<close> is the suffix of the log; it never
  raises \<^verbatim>\<open>ValueError\<close>.
\<close>

lemma pending_since_distinct:
  assumes "distinct log" and "0 \<le> v"
  shows "pending_since log log v = Inr (slice_from log v)"
proof -
  let ?P = "\<lambda>op. \<exists>i. index log op = Some i \<and> v \<le> int i"
  let ?k = "slice_bound v (length log)"
  have k: "?k = min (nat v) (length log)"
    using assms(2) by (simp add: slice_bound_def)
  have low: "\<not> ?P x" if mem: "x \<in> set (take ?k log)" for x
  proof -
    have "?k \<le> length log"
      using k by simp
    then obtain i where i: "i < ?k" "x = log ! i"
      using mem by (auto simp: in_set_conv_nth)
    then have "index log x = Some i"
      using assms(1) k by (simp add: index_nth_distinct)
    then show ?thesis using i k by auto
  qed
  have high: "?P x" if mem: "x \<in> set (drop ?k log)" for x
  proof -
    obtain j where j: "j < length log - ?k" "x = log ! (?k + j)"
      using mem by (auto simp: in_set_conv_nth)
    then have "index log x = Some (?k + j)"
      using assms(1) by (simp add: index_nth_distinct)
    moreover have "v \<le> int (?k + j)"
      using j k by auto
    ultimately show ?thesis by blast
  qed
  have "filter ?P log = filter ?P (take ?k log) @ filter ?P (drop ?k log)"
    by (metis append_take_drop_id filter_append)
  also have "filter ?P (take ?k log) = []"
    using low by (simp add: filter_empty_conv)
  also have "filter ?P (drop ?k log) = drop ?k log"
    using high by (simp add: filter_id_conv)
  finally have "filter ?P log = slice_from log v"
    by (simp add: slice_from_def)
  then show ?thesis
    by (simp add: pending_since_filter)
qed

lemma processed_twice_log: "session_log processed_twice ''doc1'' = [bold, bold]"
  by (simp add: processed_twice_def session_log_def get_session_def process_operation_def
      create_session_def CollaborativeSession_init_def DocumentState_init_def
      CollaborationManager_init_def apply_operation_def bold_def Let_def)

text \<open>
  Claim C8, evaluated where it fails. One format operation is processed twice for the
  same document, so the log holds it twice. With \<open>since_version = 1\<close> the suffix of the
  log is the second entry, but \<^verbatim>\<open>operations.index(op)\<close> is 0 for both entries, the index
  of the first equal operation, and \<open>get_pending_operations\<close> returns the empty list.
\<close>

theorem pending_misses_repeated_operation:
  "session_log processed_twice ''doc1'' = [bold, bold] \<and>
   pending_by_slice processed_twice ''doc1'' 1 = [bold] \<and>
   get_pending_operations processed_twice ''doc1'' 1 = Inr []"
proof -
  have g: "get_session processed_twice ''doc1'' \<noteq> None
      \<and> (\<forall>s. get_session processed_twice ''doc1'' = Some s
            \<longrightarrow> operations (document_state s) = [bold, bold])"
    using processed_twice_log by (auto simp: session_log_def split: option.splits)
  have "get_pending_operations processed_twice ''doc1'' 1 = pending_since [bold, bold] [bold, bold] 1"
    using g by (auto simp: get_pending_operations_def split: option.splits)
  then have "get_pending_operations processed_twice ''doc1'' 1 = Inr []"
    by simp
  then show ?thesis
    by (simp add: processed_twice_log pending_by_slice_def slice_from_def slice_bound_def)
qed

subsection \<open>What a transformation returns\<close>

lemma transform_original: "\<not> constructs op1 op2 \<Longrightarrow> transform_operation e op1 op2 = op1"
  by (auto simp: transform_operation_def constructs_def)

lemma transform_ref_original:
  "\<not> constructs (h ! r1) (h ! r2) \<Longrightarrow> transform_operation_ref e h r1 r2 = (h, r1)"
  by (auto simp: transform_operation_ref_def constructs_def Let_def)

lemma transform_ref_constructs:
  "constructs (h ! r1) (h ! r2) \<Longrightarrow>
   transform_operation_ref e h r1 r2 = alloc h (transform_operation e (h ! r1) (h ! r2))"
  unfolding transform_operation_ref_def transform_operation_def constructs_def Let_def
  by (cases "op_type (h ! r1)"; cases "op_type (h ! r2)") auto

text \<open>
  Claim C9, as the code has it. The arguments are references \<open>r1\<close> and \<open>r2\<close> to
  operations in the store. The call changes no operation that was in the store, so both
  inputs keep every field. Where the code constructs an operation the result is a new
  reference, distinct from both inputs; in every other case the result is the reference
  \<open>r1\<close> it was given, that is \<open>A\<close> itself, and the store is unchanged. In both cases the
  operation at the returned reference is the one \<open>transform_operation\<close> computes.
\<close>

theorem transform_result_and_frame:
  assumes "r1 < length h" and "r2 < length h"
  shows "take (length h) (fst (transform_operation_ref e h r1 r2)) = h \<and>
    fst (transform_operation_ref e h r1 r2) ! r1 = h ! r1 \<and>
    fst (transform_operation_ref e h r1 r2) ! r2 = h ! r2 \<and>
    fst (transform_operation_ref e h r1 r2) ! snd (transform_operation_ref e h r1 r2)
      = transform_operation e (h ! r1) (h ! r2) \<and>
    (if constructs (h ! r1) (h ! r2)
     then snd (transform_operation_ref e h r1 r2) = length h \<and>
          snd (transform_operation_ref e h r1 r2) \<noteq> r1 \<and>
          snd (transform_operation_ref e h r1 r2) \<noteq> r2 \<and>
          length (fst (transform_operation_ref e h r1 r2)) = length h + 1
     else transform_operation_ref e h r1 r2 = (h, r1))"
proof (cases "constructs (h ! r1) (h ! r2)")
  case True
  show ?thesis
    using assms True
    by (simp add: transform_ref_constructs [OF True] alloc_def nth_append)
next
  case False
  show ?thesis
    using False
    by (simp add: transform_ref_original [OF False] transform_original [OF False])
qed

theorem transform_result_and_frame_witness:
  "transform_operation_ref env0
       [mk_op INSERT 5 (Some ''abc'') None ''agent1'', mk_op INSERT 5 (Some ''xy'') None ''agent2'']
       0 1
     = ([mk_op INSERT 5 (Some ''abc'') None ''agent1'', mk_op INSERT 5 (Some ''xy'') None ''agent2''],
        0) \<and>
   snd (transform_operation_ref env0
       [mk_op INSERT 5 (Some ''abc'') None ''agent1'', mk_op INSERT 5 (Some ''xy'') None ''agent2'']
       1 0) = 2 \<and>
   take 2 (fst (transform_operation_ref env0
       [mk_op INSERT 5 (Some ''abc'') None ''agent1'', mk_op INSERT 5 (Some ''xy'') None ''agent2'']
       1 0))
     = [mk_op INSERT 5 (Some ''abc'') None ''agent1'', mk_op INSERT 5 (Some ''xy'') None ''agent2'']"
proof -
  let ?h = "[mk_op INSERT 5 (Some ''abc'') None ''agent1'',
             mk_op INSERT 5 (Some ''xy'') None ''agent2'']"
  have lt: "''agent1'' < ''agent2''" and nlt: "\<not> ''agent2'' < ''agent1''"
    by simp_all
  have c01: "\<not> constructs (?h ! 0) (?h ! 1)"
    using lt by (simp add: constructs_def mk_op_sel)
  have c10: "constructs (?h ! 1) (?h ! 0)"
    using nlt by (simp add: constructs_def mk_op_sel)
  have a: "transform_operation_ref env0 ?h 0 1 = (?h, 0)"
    using transform_result_and_frame [of 0 ?h 1 env0] c01 by simp
  have t: "take (length ?h) (fst (transform_operation_ref env0 ?h 1 0)) = ?h \<and>
      (constructs (?h ! 1) (?h ! 0) \<longrightarrow>
         snd (transform_operation_ref env0 ?h 1 0) = length ?h)"
    using transform_result_and_frame [of 1 ?h 0 env0] by (simp split: if_splits)
  have b: "snd (transform_operation_ref env0 ?h 1 0) = 2"
    using t c10 by (simp add: numeral_2_eq_2)
  have c: "take 2 (fst (transform_operation_ref env0 ?h 1 0)) = ?h"
    using t by (simp add: numeral_2_eq_2)
  show ?thesis
    using a b c by simp
qed

text \<open>
  Claim C9 as stated has every call return a new operation. An insert at position 3
  transformed against an insert at position 5 reaches \<^verbatim>\<open>return op1\<close>: the store is
  unchanged and the result is the reference of the first argument.
\<close>

theorem transform_returns_its_argument:
  "transform_operation_ref env0
       [mk_op INSERT 3 (Some ''abc'') None ''agent1'', mk_op INSERT 5 (Some ''xy'') None ''agent2'']
       0 1
     = ([mk_op INSERT 3 (Some ''abc'') None ''agent1'', mk_op INSERT 5 (Some ''xy'') None ''agent2''],
        0)"
  by (simp add: transform_operation_ref_def mk_op_sel Let_def)

end
